theory Spec2Isabelle
  imports Main "HOL-Library.Monad_Syntax" "HOL-Library.Log_Nat"
begin

section \<open>Python strings\<close>

text \<open>
  A Python \<open>str\<close> is a sequence of Unicode code points; a code point is a natural
  number, so that the full-width characters of the sources (U+3000, U+FF08, U+FF09)
  and the CJK range are single elements, as they are for \<open>find\<close>, \<open>replace\<close> and
  slicing.
\<close>

type_synonym ustr = "nat list"

text \<open>\<open>str.isspace\<close> of one code point (the white space table of CPython).\<close>

definition py_isspace :: "nat \<Rightarrow> bool" where
  "py_isspace c =
     ((0x09 \<le> c \<and> c \<le> 0x0D) \<or> (0x1C \<le> c \<and> c \<le> 0x20) \<or> c = 0x85 \<or> c = 0xA0 \<or>
      c = 0x1680 \<or> (0x2000 \<le> c \<and> c \<le> 0x200A) \<or> c = 0x2028 \<or> c = 0x2029 \<or>
      c = 0x202F \<or> c = 0x205F \<or> c = 0x3000)"

text \<open>\<open>s.strip()\<close>: leading and trailing white space removed.\<close>

definition py_strip :: "ustr \<Rightarrow> ustr" where
  "py_strip s = rev (dropWhile py_isspace (rev (dropWhile py_isspace s)))"

text \<open>\<open>s.replace(c, '')\<close> for a one-character \<open>c\<close>: every occurrence is deleted.\<close>

definition py_remove :: "nat \<Rightarrow> ustr \<Rightarrow> ustr" where
  "py_remove c s = filter (\<lambda>x. x \<noteq> c) s"

text \<open>\<open>s.find(c)\<close> for a one-character \<open>c\<close>: the first index, or -1.\<close>

fun py_find :: "nat \<Rightarrow> ustr \<Rightarrow> int" where
  "py_find c [] = - 1"
| "py_find c (x # xs) =
     (if x = c then 0 else (let i = py_find c xs in if i < 0 then - 1 else i + 1))"

text \<open>The slices \<open>s[:i]\<close> and \<open>s[j:]\<close>; a negative index counts from the end.\<close>

definition py_upto :: "ustr \<Rightarrow> int \<Rightarrow> ustr" where
  "py_upto s i = (if i < 0 then take (nat (int (length s) + i)) s else take (nat i) s)"

definition py_from :: "ustr \<Rightarrow> int \<Rightarrow> ustr" where
  "py_from s j = (if j < 0 then drop (nat (int (length s) + j)) s else drop (nat j) s)"


section \<open>The character class of the regular expression\<close>

text \<open>
  The call \<open>re.sub\<close> of step three deletes every character outside the class
  "\<open>\w\<close> or U+4E00 to U+9FA5" and keeps the others. On a \<open>str\<close> pattern \<open>\w\<close> is
  "alphanumeric or underscore", alphanumeric as in the Unicode database of the
  interpreter. The database is not part of the repository: its ASCII part, its white
  space (no white space character is alphanumeric) and its entries for the two
  full-width brackets the sources name (U+FF08 and U+FF09 are punctuation) are written
  out, every other entry is the parameter \<open>tbl\<close>.
\<close>

definition ascii_alnum :: "nat \<Rightarrow> bool" where
  "ascii_alnum c =
     ((0x30 \<le> c \<and> c \<le> 0x39) \<or> (0x41 \<le> c \<and> c \<le> 0x5A) \<or> (0x61 \<le> c \<and> c \<le> 0x7A))"

definition py_isalnum :: "(nat \<Rightarrow> bool) \<Rightarrow> nat \<Rightarrow> bool" where
  "py_isalnum tbl c =
     (if c < 0x80 then ascii_alnum c
      else if py_isspace c \<or> c = 0xFF08 \<or> c = 0xFF09 then False
      else tbl c)"

definition re_word :: "(nat \<Rightarrow> bool) \<Rightarrow> nat \<Rightarrow> bool" where
  "re_word tbl c = (py_isalnum tbl c \<or> c = 0x5F)"

definition re_keep :: "(nat \<Rightarrow> bool) \<Rightarrow> nat \<Rightarrow> bool" where
  "re_keep tbl c = (re_word tbl c \<or> (0x4E00 \<le> c \<and> c \<le> 0x9FA5))"

definition re_sub_symbols :: "(nat \<Rightarrow> bool) \<Rightarrow> ustr \<Rightarrow> ustr" where
  "re_sub_symbols tbl s = filter (re_keep tbl) s"

section \<open>Text normalizer\<close>

subsection \<open>Tier 1\<close>

text \<open>
  \<open>str_format_1\<close> is the same chain of six \<open>replace\<close> calls in both files
  (space, U+3000, the ASCII brackets, the full-width brackets).
\<close>

definition str_format_1 :: "ustr \<Rightarrow> ustr" where
  "str_format_1 s =
     py_remove 0xFF09 (py_remove 0xFF08 (py_remove 0x29 (py_remove 0x28
       (py_remove 0x3000 (py_remove 0x20 s)))))"

subsection \<open>Tier 2, textbook_fee_reporter.py\<close>

lemma py_find_bounds:
  "c \<in> set s \<Longrightarrow> 0 \<le> py_find c s \<and> py_find c s < int (length s)"
  by (induction s) (auto simp: Let_def)

text \<open>
  One \<open>while\<close> loop of \<open>str_format_2\<close>, for the bracket pair \<open>l\<close>, \<open>r\<close>: while both
  occur, cut from the first \<open>l\<close> to the first \<open>r\<close> when the \<open>l\<close> comes first, and
  \<open>break\<close> otherwise.
\<close>

function strip_brackets :: "nat \<Rightarrow> nat \<Rightarrow> ustr \<Rightarrow> ustr" where
  "strip_brackets l r s =
     (if l \<in> set s \<and> r \<in> set s then
        (let start = py_find l s; end = py_find r s in
         if start < end then strip_brackets l r (py_upto s start @ py_from s (end + 1))
         else s)
      else s)"
  by pat_completeness auto
termination
proof (relation "measure (\<lambda>(l, r, s). length s)", goal_cases)
  case 1
  show ?case by simp
next
  case (2 l r s start e)
  then have "0 \<le> start" "start < e" "e < int (length s)"
    using py_find_bounds[of l s] py_find_bounds[of r s] by auto
  then show ?case
    by (simp add: py_upto_def py_from_def)
qed

definition str_format_2 :: "(nat \<Rightarrow> bool) \<Rightarrow> ustr \<Rightarrow> ustr" where
  "str_format_2 tbl s =
     (let s1 = strip_brackets 0xFF08 0xFF09 s;
          s2 = strip_brackets 0x28 0x29 s1;
          cleaned_str = re_sub_symbols tbl s2
      in py_remove 0x3000 (py_remove 0x20 cleaned_str))"

subsection \<open>Tier 2, TextbookPurchaseFeeCalculator.py\<close>

text \<open>
  The loops of this file have no \<open>start < end\<close> test and no \<open>break\<close>: the body runs
  as long as both brackets occur. A run that never leaves the loop is the value
  \<open>None\<close>.
\<close>

partial_function (option) strip_brackets_gui :: "nat \<Rightarrow> nat \<Rightarrow> ustr \<Rightarrow> ustr option" where
  "strip_brackets_gui l r s =
     (if l \<in> set s \<and> r \<in> set s then
        strip_brackets_gui l r (py_upto s (py_find l s) @ py_from s (py_find r s + 1))
      else Some s)"

definition str_format_2_gui :: "(nat \<Rightarrow> bool) \<Rightarrow> ustr \<Rightarrow> ustr option" where
  "str_format_2_gui tbl s =
     do {
       s1 \<leftarrow> strip_brackets_gui 0xFF08 0xFF09 s;
       s2 \<leftarrow> strip_brackets_gui 0x28 0x29 s1;
       Some (py_remove 0x3000 (py_remove 0x20 (re_sub_symbols tbl s2)))
     }"

section \<open>Python floats\<close>

text \<open>
  Prices and totals are Python floats. A finite float is modelled by its exact value,
  a rational; \<open>fl\<close> rounds a rational to the nearest number with a 53-bit significand,
  ties to the even significand, as binary64 arithmetic does. The exponent range of
  binary64 is not modelled: no overflow to infinity, no subnormal numbers.
\<close>

text \<open>Rounding a rational to the nearest integer, ties to even.\<close>

definition round_half_even :: "rat \<Rightarrow> int" where
  "round_half_even x =
     (let f = \<lfloor>x\<rfloor>; d = x - of_int f in
      if d < 1 / 2 then f else if 1 / 2 < d then f + 1
      else if even f then f else f + 1)"

definition pow2 :: "int \<Rightarrow> rat" where
  "pow2 e = (if 0 \<le> e then 2 ^ nat e else 1 / 2 ^ nat (- e))"

text \<open>The binary exponent of a positive rational: \<open>pow2 k \<le> x < pow2 (k + 1)\<close>.\<close>

definition ilog2 :: "rat \<Rightarrow> int" where
  "ilog2 x = (if 1 \<le> x then bitlen \<lfloor>x\<rfloor> - 1 else - bitlen (\<lceil>1 / x\<rceil> - 1))"

definition fl :: "rat \<Rightarrow> rat" where
  "fl x =
     (if x = 0 then 0
      else let e = ilog2 \<bar>x\<bar> - 52 in of_int (round_half_even (x / pow2 e)) * pow2 e)"

text \<open>\<open>x + y\<close> on floats.\<close>

definition fadd :: "rat \<Rightarrow> rat \<Rightarrow> rat" where
  "fadd x y = fl (x + y)"

text \<open>
  \<open>round(x, 2)\<close> on a float: the exact value of \<open>x\<close> is rounded to two decimals, ties to
  even, and the decimal is converted back to the nearest float.
\<close>

definition py_round2 :: "rat \<Rightarrow> rat" where
  "py_round2 x = fl (of_int (round_half_even (x * 100)) / 100)"

text \<open>
  Rounding to two decimals with ties away from zero ("half-up"), for comparison with
  \<open>py_round2\<close>; no source function computes it.
\<close>

definition round_half_up2 :: "rat \<Rightarrow> rat" where
  "round_half_up2 x = fl (of_int (if 0 \<le> x then \<lfloor>x * 100 + 1 / 2\<rfloor> else \<lceil>x * 100 - 1 / 2\<rceil>) / 100)"

text \<open>
  The truth value of the result of \<open>dict.get\<close> on a price map: \<open>None\<close> and the float
  zero are false.
\<close>

definition truthy :: "rat option \<Rightarrow> bool" where
  "truthy v = (case v of None \<Rightarrow> False | Some p \<Rightarrow> p \<noteq> 0)"

text \<open>\<open>a or b\<close>: \<open>a\<close> when it is true, \<open>b\<close> otherwise.\<close>

definition py_or :: "rat option \<Rightarrow> rat option \<Rightarrow> rat option" where
  "py_or a b = (if truthy a then a else b)"

section \<open>Records and errors\<close>

text \<open>
  A book of \<open>book_data\<close> is a dict with the keys serial, title and discounted price; a
  student record is a dict with the keys name and title. The title fields hold the
  text that \<open>str()\<close> gives for the stored value: the sources read a title through
  \<open>str()\<close> only.
\<close>

record book =
  book_serial :: int
  book_title :: ustr
  book_price :: rat

record purchase =
  stu_name :: ustr
  stu_title :: ustr

text \<open>\<open>price_maps\<close>: the three dicts from a title key to a price.\<close>

record price_maps =
  raw_name :: "ustr \<rightharpoonup> rat"
  fmt1_name :: "ustr \<rightharpoonup> rat"
  fmt2_name :: "ustr \<rightharpoonup> rat"

text \<open>
  One constructor for each \<open>raise\<close> of the sources and for each exception of the
  library calls that the model follows, with the values its message interpolates.
  \<open>BookExcelFailed\<close> and \<open>PaymentsFailed\<close> are the \<open>except Exception\<close> wrappers of
  textbook_fee_reporter.py, which re-raise the caught error under a prefix.
\<close>

datatype error =
    ClassNotFound ustr
  | HeaderNotFound
  | MissingColumn ustr
  | NonContiguousSerial int int
  | NoValidData
  | IndexOutOfBounds
  | NoColumnZero
  | BadPattern
  | IntConversion
  | FloatConversion
  | UnmatchedPurchases "ustr list"
  | BookExcelFailed error
  | PaymentsFailed error

definition empty_maps :: price_maps where
  "empty_maps = \<lparr>raw_name = Map.empty, fmt1_name = Map.empty, fmt2_name = Map.empty\<rparr>"

text \<open>
  \<open>totals[name] += price\<close> on a \<open>defaultdict(float)\<close>: a dict keeps its keys in the order
  of their first insertion, a missing key starts at \<open>0.0\<close>.
\<close>

fun totals_add :: "(ustr \<times> rat) list \<Rightarrow> ustr \<Rightarrow> rat \<Rightarrow> (ustr \<times> rat) list" where
  "totals_add [] n p = [(n, fadd 0 p)]"
| "totals_add ((k, v) # ts) n p =
     (if k = n then (k, fadd v p) # ts else (k, v) # totals_add ts n p)"

text \<open>The result rows: a name with \<open>round(total, 2)\<close>.\<close>

definition payments_of :: "(ustr \<times> rat) list \<Rightarrow> (ustr \<times> rat) list" where
  "payments_of totals = map (\<lambda>(n, total). (n, py_round2 total)) totals"

section \<open>calculate_student_payments, textbook_fee_reporter.py\<close>

definition add_book :: "(nat \<Rightarrow> bool) \<Rightarrow> price_maps \<Rightarrow> book \<Rightarrow> price_maps" where
  "add_book tbl pm b =
     (let raw = py_strip (book_title b);
          fmt1 = str_format_1 raw;
          fmt2 = str_format_2 tbl raw
      in \<lparr>raw_name = (raw_name pm)(raw \<mapsto> book_price b),
          fmt1_name = (fmt1_name pm)(fmt1 \<mapsto> book_price b),
          fmt2_name = (fmt2_name pm)(fmt2 \<mapsto> book_price b)\<rparr>)"

fun build_price_maps :: "(nat \<Rightarrow> bool) \<Rightarrow> price_maps \<Rightarrow> book list \<Rightarrow> price_maps" where
  "build_price_maps tbl pm [] = pm"
| "build_price_maps tbl pm (b # bs) = build_price_maps tbl (add_book tbl pm b) bs"

text \<open>
  The \<open>if\<close>/\<open>elif\<close> chain on key membership: \<open>matched_price\<close> stays \<open>None\<close> when no key
  is found.
\<close>

definition match_price :: "(nat \<Rightarrow> bool) \<Rightarrow> price_maps \<Rightarrow> purchase \<Rightarrow> rat option" where
  "match_price tbl pm student =
     (let book_name = py_strip (stu_title student);
          fmt1 = str_format_1 book_name;
          fmt2 = str_format_2 tbl book_name
      in if book_name \<in> dom (raw_name pm) then raw_name pm book_name
         else if fmt1 \<in> dom (fmt1_name pm) then fmt1_name pm fmt1
         else if fmt2 \<in> dom (fmt2_name pm) then fmt2_name pm fmt2
         else None)"

text \<open>The line appended to \<open>unmatched_records\<close>: the name and the trimmed title in brackets.\<close>

definition unmatched_line :: "purchase \<Rightarrow> ustr" where
  "unmatched_line student =
     [0x5B66, 0x751F, 0x5B] @ stu_name student @ [0x5D, 0x20, 0x6559, 0x6750, 0x5B] @
     py_strip (stu_title student) @ [0x5D]"

fun student_loop ::
  "(nat \<Rightarrow> bool) \<Rightarrow> price_maps \<Rightarrow> (ustr \<times> rat) list \<Rightarrow> ustr list \<Rightarrow> purchase list \<Rightarrow>
   (ustr \<times> rat) list \<times> ustr list" where
  "student_loop tbl pm totals unmatched [] = (totals, unmatched)"
| "student_loop tbl pm totals unmatched (student # rest) =
     (case match_price tbl pm student of
        Some matched_price \<Rightarrow>
          student_loop tbl pm (totals_add totals (stu_name student) matched_price) unmatched rest
      | None \<Rightarrow>
          student_loop tbl pm totals (unmatched @ [unmatched_line student]) rest)"

definition calculate_student_payments ::
  "(nat \<Rightarrow> bool) \<Rightarrow> book list \<Rightarrow> purchase list \<Rightarrow> error + (ustr \<times> rat) list" where
  "calculate_student_payments tbl book_data student_records =
     (let pm = build_price_maps tbl empty_maps book_data;
          (student_totals, unmatched_records) = student_loop tbl pm [] [] student_records
      in if unmatched_records \<noteq> [] then
           Inl (PaymentsFailed (UnmatchedPurchases unmatched_records))
         else Inr (payments_of student_totals))"

section \<open>calculate_student_payments, TextbookPurchaseFeeCalculator.py\<close>

text \<open>
  This version calls the \<open>str_format_2\<close> of its own file, which may not return, so each
  step is in the option monad. It looks prices up with \<open>dict.get\<close> and chains the three
  results with \<open>or\<close>; it keeps a flag, set when the Tier-2 result is true and the two
  others are not, and returns it beside the rows.
\<close>

definition add_book_gui :: "(nat \<Rightarrow> bool) \<Rightarrow> price_maps \<Rightarrow> book \<Rightarrow> price_maps option" where
  "add_book_gui tbl pm b =
     do {
       let raw = py_strip (book_title b);
       let fmt1 = str_format_1 raw;
       fmt2 \<leftarrow> str_format_2_gui tbl raw;
       Some \<lparr>raw_name = (raw_name pm)(raw \<mapsto> book_price b),
             fmt1_name = (fmt1_name pm)(fmt1 \<mapsto> book_price b),
             fmt2_name = (fmt2_name pm)(fmt2 \<mapsto> book_price b)\<rparr>
     }"

fun build_price_maps_gui ::
  "(nat \<Rightarrow> bool) \<Rightarrow> price_maps \<Rightarrow> book list \<Rightarrow> price_maps option" where
  "build_price_maps_gui tbl pm [] = Some pm"
| "build_price_maps_gui tbl pm (b # bs) =
     do { pm' \<leftarrow> add_book_gui tbl pm b; build_price_maps_gui tbl pm' bs }"

definition unmatched_line_gui :: "purchase \<Rightarrow> ustr" where
  "unmatched_line_gui stu = stu_name stu @ [0x20, 0x2D, 0x20] @ py_strip (stu_title stu)"

text \<open>The state of the loop: \<open>totals\<close>, \<open>unmatched\<close> and \<open>flag_greedy\<close>.\<close>

definition student_step_gui ::
  "(nat \<Rightarrow> bool) \<Rightarrow> price_maps \<Rightarrow> (ustr \<times> rat) list \<times> ustr list \<times> bool \<Rightarrow> purchase \<Rightarrow>
   ((ustr \<times> rat) list \<times> ustr list \<times> bool) option" where
  "student_step_gui tbl pm st stu =
     (case st of (totals, unmatched, flag_greedy) \<Rightarrow>
      do {
        let bname = py_strip (stu_title stu);
        let fmt1 = str_format_1 bname;
        fmt2 \<leftarrow> str_format_2_gui tbl bname;
        let price = py_or (py_or (raw_name pm bname) (fmt1_name pm fmt1)) (fmt2_name pm fmt2);
        Some (case price of
                Some p \<Rightarrow>
                  (totals_add totals (stu_name stu) p, unmatched,
                   if truthy (fmt2_name pm fmt2) \<and> \<not> truthy (raw_name pm bname) \<and>
                      \<not> truthy (fmt1_name pm fmt1)
                   then True else flag_greedy)
              | None \<Rightarrow> (totals, unmatched @ [unmatched_line_gui stu], flag_greedy))
      })"

fun student_loop_gui ::
  "(nat \<Rightarrow> bool) \<Rightarrow> price_maps \<Rightarrow> (ustr \<times> rat) list \<times> ustr list \<times> bool \<Rightarrow> purchase list \<Rightarrow>
   ((ustr \<times> rat) list \<times> ustr list \<times> bool) option" where
  "student_loop_gui tbl pm st [] = Some st"
| "student_loop_gui tbl pm st (stu # rest) =
     do { st' \<leftarrow> student_step_gui tbl pm st stu; student_loop_gui tbl pm st' rest }"

definition calculate_student_payments_gui ::
  "(nat \<Rightarrow> bool) \<Rightarrow> book list \<Rightarrow> purchase list \<Rightarrow> (error + (ustr \<times> rat) list \<times> bool) option" where
  "calculate_student_payments_gui tbl book_data student_records =
     do {
       pm \<leftarrow> build_price_maps_gui tbl empty_maps book_data;
       (totals, unmatched, flag_greedy) \<leftarrow> student_loop_gui tbl pm ([], [], False) student_records;
       Some (if unmatched \<noteq> [] then Inl (UnmatchedPurchases unmatched)
             else Inr (payments_of totals, flag_greedy))
     }"

text \<open>
  The grand total of \<open>run_calculation\<close>: the built-in \<open>sum\<close> over the fees of the returned
  rows. How the interpreter adds a sequence of floats (one after the other, or with a
  compensation term as newer interpreters do) is not part of the repository; it is the
  parameter \<open>fsum\<close>.
\<close>

definition grand_total :: "(rat list \<Rightarrow> rat) \<Rightarrow> (ustr \<times> rat) list \<Rightarrow> rat" where
  "grand_total fsum payments = fsum (map snd payments)"

section \<open>process_book_excel\<close>




















section \<open>Vocabulary for the statements\<close>

text \<open>
  The value of the \<open>or\<close> chain of TextbookPurchaseFeeCalculator.py for one purchase, and
  the condition under which the flag is set, both on the three \<open>get\<close> results; Tier 2 is
  taken with the total \<open>str_format_2\<close>, which gives the result of the other
  \<open>str_format_2\<close> wherever that one returns.
\<close>

definition gui_price :: "(nat \<Rightarrow> bool) \<Rightarrow> price_maps \<Rightarrow> purchase \<Rightarrow> rat option" where
  "gui_price tbl pm stu =
     (let bname = py_strip (stu_title stu) in
      py_or (py_or (raw_name pm bname) (fmt1_name pm (str_format_1 bname)))
            (fmt2_name pm (str_format_2 tbl bname)))"

definition gui_greedy :: "(nat \<Rightarrow> bool) \<Rightarrow> price_maps \<Rightarrow> purchase \<Rightarrow> bool" where
  "gui_greedy tbl pm stu =
     (let bname = py_strip (stu_title stu) in
      truthy (fmt2_name pm (str_format_2 tbl bname)) \<and> \<not> truthy (raw_name pm bname) \<and>
      \<not> truthy (fmt1_name pm (str_format_1 bname)))"

text \<open>A purchase resolves at no tier: none of its three keys is in its map.\<close>

definition no_tier :: "(nat \<Rightarrow> bool) \<Rightarrow> price_maps \<Rightarrow> purchase \<Rightarrow> bool" where
  "no_tier tbl pm stu =
     (let bname = py_strip (stu_title stu) in
      raw_name pm bname = None \<and> fmt1_name pm (str_format_1 bname) = None \<and>
      fmt2_name pm (str_format_2 tbl bname) = None)"

text \<open>
  The purchases that get a price, as pairs of student name and price in the order of the
  batch; the totals after adding such pairs one by one; the prices of one student.
\<close>

definition priced :: "(purchase \<Rightarrow> rat option) \<Rightarrow> purchase list \<Rightarrow> (ustr \<times> rat) list" where
  "priced price recs =
     concat (map (\<lambda>stu. case price stu of Some p \<Rightarrow> [(stu_name stu, p)] | None \<Rightarrow> []) recs)"

definition add_all :: "(ustr \<times> rat) list \<Rightarrow> (ustr \<times> rat) list \<Rightarrow> (ustr \<times> rat) list" where
  "add_all t nps = foldl (\<lambda>t (n, p). totals_add t n p) t nps"

definition prices_of :: "ustr \<Rightarrow> (ustr \<times> rat) list \<Rightarrow> rat list" where
  "prices_of n nps = map snd (filter (\<lambda>x. fst x = n) nps)"




section \<open>Properties of the text normalizer\<close>

declare strip_brackets.simps [simp del]

lemma py_find_notin: "c \<notin> set s \<Longrightarrow> py_find c s = - 1"
  by (induction s) (auto simp: Let_def)

lemma py_find_neg_iff: "py_find c s < 0 \<longleftrightarrow> c \<notin> set s"
  by (induction s) (auto simp: Let_def)

lemma py_find_append:
  "py_find c (xs @ ys) =
     (if c \<in> set xs then py_find c xs
      else if c \<in> set ys then int (length xs) + py_find c ys else - 1)"
proof (induction xs)
  case Nil
  then show ?case by (simp add: py_find_notin)
next
  case (Cons a xs)
  have "0 \<le> py_find c ys" if "c \<in> set ys" using that py_find_bounds by blast
  then show ?case using Cons by (auto simp: Let_def py_find_neg_iff py_find_notin)
qed

lemma py_find_split:
  "c \<notin> set ys \<Longrightarrow> py_find c (ys @ c # zs) = int (length ys)"
  by (simp add: py_find_append)

lemma gui_step_keeps_order:
  assumes "l \<in> set s" "r \<in> set s" "py_find r s < py_find l s"
  defines "s' \<equiv> py_upto s (py_find l s) @ py_from s (py_find r s + 1)"
  shows "l \<in> set s' \<and> r \<in> set s' \<and> py_find r s' < py_find l s'"
proof -
  from assms(1) obtain ys zs where s: "s = ys @ l # zs" and lys: "l \<notin> set ys"
    by (meson split_list_first)
  have fl: "py_find l s = int (length ys)" using s lys by (simp add: py_find_split)
  have "r \<noteq> l" using assms(3) by auto
  have "r \<in> set ys"
  proof (rule ccontr)
    assume "r \<notin> set ys"
    then have "py_find r s = int (length ys) + py_find r (l # zs)"
      using assms(2) s by (simp add: py_find_append)
    moreover have "0 \<le> py_find r (l # zs)"
      using \<open>r \<notin> set ys\<close> assms(2) s py_find_bounds[of r "l # zs"] by auto
    ultimately show False using assms(3) fl by linarith
  qed
  then obtain us vs where ys: "ys = us @ r # vs" and rus: "r \<notin> set us"
    by (meson split_list_first)
  have fr: "py_find r s = int (length us)"
    using s ys rus by (simp add: py_find_append)
  have "s' = take (length ys) s @ drop (Suc (length us)) s"
    unfolding s'_def fl fr py_upto_def py_from_def by (simp add: nat_add_distrib)
  then have s': "s' = ys @ vs @ l # zs"
    using s ys by simp
  have "py_find r s' = int (length us)" using ys rus by (simp add: s' py_find_append)
  moreover have "py_find l s' = int (length ys) + int (length vs)"
    using lys ys by (simp add: s' py_find_append)
  ultimately show ?thesis using ys by (simp add: s')
qed

lemma strip_brackets_gui_diverges:
  assumes "l \<in> set s" "r \<in> set s" "py_find r s < py_find l s"
  shows "strip_brackets_gui l r s = None"
proof -
  have "\<not> (l \<in> set s \<and> r \<in> set s \<and> py_find r s < py_find l s)"
    if h: "strip_brackets_gui l r s = Some y" for y
  proof (rule strip_brackets_gui.raw_induct[where
        P = "\<lambda>l r s y. \<not> (l \<in> set s \<and> r \<in> set s \<and> py_find r s < py_find l s)", OF _ h])
    fix f :: "nat \<Rightarrow> nat \<Rightarrow> ustr \<Rightarrow> ustr option" and l r s y
    assume IH: "\<And>l r s y. f l r s = Some y \<Longrightarrow>
                 \<not> (l \<in> set s \<and> r \<in> set s \<and> py_find r s < py_find l s)"
      and body: "(if l \<in> set s \<and> r \<in> set s
                  then f l r (py_upto s (py_find l s) @ py_from s (py_find r s + 1))
                  else Some s) = Some y"
    show "\<not> (l \<in> set s \<and> r \<in> set s \<and> py_find r s < py_find l s)"
    proof
      assume inv: "l \<in> set s \<and> r \<in> set s \<and> py_find r s < py_find l s"
      with body have "f l r (py_upto s (py_find l s) @ py_from s (py_find r s + 1)) = Some y"
        by simp
      note no = IH[OF this]
      from inv have "l \<in> set s" "r \<in> set s" "py_find r s < py_find l s" by simp_all
      from gui_step_keeps_order[OF this] no show False by simp
    qed
  qed
  with assms show ?thesis by (cases "strip_brackets_gui l r s") auto
qed

lemma re_keep_not_space: "py_isspace c \<Longrightarrow> \<not> re_keep tbl c"
proof (cases "c < 0x80")
  case True
  assume "py_isspace c"
  with True have "c \<le> 0x20" by (simp add: py_isspace_def) linarith
  then show ?thesis
    using True by (simp add: re_keep_def re_word_def py_isalnum_def ascii_alnum_def)
next
  case False
  assume sp: "py_isspace c"
  then have "c < 0x4E00" by (simp add: py_isspace_def) linarith
  with False sp show ?thesis
    by (simp add: re_keep_def re_word_def py_isalnum_def)
qed

lemma re_keep_not_bracket:
  "\<not> re_keep tbl 0x28" "\<not> re_keep tbl 0x29" "\<not> re_keep tbl 0xFF08" "\<not> re_keep tbl 0xFF09"
  "\<not> re_keep tbl 0x20" "\<not> re_keep tbl 0x3000"
  by (simp_all add: re_keep_def re_word_def py_isalnum_def ascii_alnum_def py_isspace_def)

lemma strip_brackets_absent: "l \<notin> set s \<Longrightarrow> strip_brackets l r s = s"
  by (simp add: strip_brackets.simps[of l r s])

lemma py_find_nth: "c \<in> set s \<Longrightarrow> s ! nat (py_find c s) = c"
proof -
  assume "c \<in> set s"
  then obtain ys zs where "s = ys @ c # zs" "c \<notin> set ys" by (meson split_list_first)
  then show ?thesis by (simp add: py_find_split)
qed

lemma str_format_2_kept: "c \<in> set (str_format_2 tbl s) \<Longrightarrow> re_keep tbl c"
  by (simp add: str_format_2_def Let_def re_sub_symbols_def py_remove_def)

lemma py_remove_absent: "c \<notin> set s \<Longrightarrow> py_remove c s = s"
  by (auto simp: py_remove_def filter_id_conv)

lemma str_format_2_fixed:
  assumes "\<And>c. c \<in> set r \<Longrightarrow> re_keep tbl c"
  shows "str_format_2 tbl r = r"
proof -
  have nb: "0x28 \<notin> set r" "0xFF08 \<notin> set r" "0x20 \<notin> set r" "0x3000 \<notin> set r"
    using assms re_keep_not_bracket by blast+
  have "re_sub_symbols tbl r = r"
    using assms by (simp add: re_sub_symbols_def filter_id_conv)
  then show ?thesis
    using nb by (simp add: str_format_2_def Let_def strip_brackets_absent py_remove_absent)
qed

lemma str_format_2_idem: "str_format_2 tbl (str_format_2 tbl s) = str_format_2 tbl s"
  by (rule str_format_2_fixed) (rule str_format_2_kept)

lemma str_format_1_idem: "str_format_1 (str_format_1 s) = str_format_1 s"
  by (auto simp: str_format_1_def py_remove_def intro!: filter_cong)

lemma strip_brackets_gui_agrees:
  "l \<noteq> r \<Longrightarrow> strip_brackets_gui l r s = Some t \<Longrightarrow> strip_brackets l r s = t"
proof (induction l r s rule: strip_brackets.induct)
  case (1 l r s)
  show ?case
  proof (cases "l \<in> set s \<and> r \<in> set s")
    case False
    then have "strip_brackets l r s = s" "strip_brackets_gui l r s = Some s"
      by (auto simp: strip_brackets_gui.simps[of l r s] strip_brackets.simps[of l r s])
    with 1(3) show ?thesis by simp
  next
    case both: True
    show ?thesis
    proof (cases "py_find l s < py_find r s")
      case True
      with both 1(3)
      have "strip_brackets_gui l r (py_upto s (py_find l s) @ py_from s (py_find r s + 1)) = Some t"
        by (simp add: strip_brackets_gui.simps[of l r s])
      with 1(1)[OF both refl refl True 1(2)] both True show ?thesis
        by (simp add: strip_brackets.simps[of l r s])
    next
      case False
      have "py_find l s \<noteq> py_find r s"
        using both 1(2) py_find_nth[of l s] py_find_nth[of r s] by auto
      with False have "py_find r s < py_find l s" by simp
      with both have "strip_brackets_gui l r s = None"
        by (simp add: strip_brackets_gui_diverges)
      with 1(3) show ?thesis by simp
    qed
  qed
qed

lemma str_format_2_gui_agrees:
  assumes "str_format_2_gui tbl s = Some t"
  shows "str_format_2 tbl s = t"
proof -
  from assms obtain s1 s2 where
    s1: "strip_brackets_gui 0xFF08 0xFF09 s = Some s1" and
    s2: "strip_brackets_gui 0x28 0x29 s1 = Some s2" and
    t: "t = py_remove 0x3000 (py_remove 0x20 (re_sub_symbols tbl s2))"
    by (auto simp: str_format_2_gui_def split: bind_splits)
  have "strip_brackets 0xFF08 0xFF09 s = s1"
    by (rule strip_brackets_gui_agrees[OF _ s1]) simp
  moreover have "strip_brackets 0x28 0x29 s1 = s2"
    by (rule strip_brackets_gui_agrees[OF _ s2]) simp
  ultimately show ?thesis by (simp add: str_format_2_def t)
qed

lemma str_format_2_gui_fixed:
  assumes "\<And>c. c \<in> set r \<Longrightarrow> re_keep tbl c"
  shows "str_format_2_gui tbl r = Some r"
proof -
  have nb: "0x28 \<notin> set r" "0xFF08 \<notin> set r" "0x20 \<notin> set r" "0x3000 \<notin> set r"
    using assms re_keep_not_bracket by blast+
  have "re_sub_symbols tbl r = r"
    using assms by (simp add: re_sub_symbols_def filter_id_conv)
  moreover have "strip_brackets_gui 0xFF08 0xFF09 r = Some r" "strip_brackets_gui 0x28 0x29 r = Some r"
    using nb by (simp_all add: strip_brackets_gui.simps[of _ _ r])
  ultimately show ?thesis
    using nb by (simp add: str_format_2_gui_def py_remove_absent)
qed

lemma str_format_2_gui_idem:
  "str_format_2_gui tbl s \<bind> str_format_2_gui tbl = str_format_2_gui tbl s"
proof (cases "str_format_2_gui tbl s")
  case None
  then show ?thesis by simp
next
  case (Some t)
  then have "str_format_2 tbl s = t" by (rule str_format_2_gui_agrees)
  then have "\<And>c. c \<in> set t \<Longrightarrow> re_keep tbl c" using str_format_2_kept by blast
  then show ?thesis using Some by (simp add: str_format_2_gui_fixed)
qed

lemma str_format_2_blank:
  assumes "list_all py_isspace s"
  shows "str_format_2 tbl s = []"
proof -
  have sp: "\<And>c. c \<in> set s \<Longrightarrow> py_isspace c" using assms by (simp add: list_all_iff)
  have "\<not> py_isspace 0x28" "\<not> py_isspace 0xFF08" by (simp_all add: py_isspace_def)
  with sp have "0x28 \<notin> set s" "0xFF08 \<notin> set s" by blast+
  moreover have "re_sub_symbols tbl s = []"
    using sp by (auto simp: re_sub_symbols_def filter_empty_conv re_keep_not_space)
  ultimately show ?thesis
    by (simp add: str_format_2_def Let_def strip_brackets_absent py_remove_def)
qed


text \<open>
  Claim C5. \<open>str_format_2\<close> returns on every string, also on strings with malformed
  or unbalanced brackets. The function of textbook_fee_reporter.py does (it is the
  total function \<open>str_format_2\<close>, and \<open>str_format_2_blank\<close> gives the empty string on
  empty and white-space input). The function of TextbookPurchaseFeeCalculator.py
  does not: on the two-character string ")(" both brackets occur, \<open>find('(')\<close> is 1
  and \<open>find(')')\<close> is 0, the new string \<open>s[:1] + s[1:]\<close> is the old one, and the loop
  runs forever.
\<close>

theorem str_format_2_gui_never_returns:
  "str_format_2_gui tbl [0x29, 0x28] = None"
  using strip_brackets_gui_diverges[of "0x28" "[0x29, 0x28]" "0x29"]
  by (simp add: str_format_2_gui_def strip_brackets_gui.simps[of "0xFF08"])

text \<open>
  Claim C6. Both tiers are idempotent on every string, also on the empty string and on
  strings with unmatched brackets. Tier 1, the same function in both files, is, and so
  is Tier 2 of textbook_fee_reporter.py. Tier 2 of TextbookPurchaseFeeCalculator.py is
  not: on the string of a closing full-width bracket followed by an opening one, a
  string with unmatched brackets, the call does not return, so there is no result
  that a second call could reproduce.
\<close>

theorem tier2_gui_no_result_on_unmatched:
  "str_format_1 (str_format_1 s) = str_format_1 s \<and>
   str_format_2 tbl (str_format_2 tbl s) = str_format_2 tbl s \<and>
   str_format_2 tbl [0xFF09, 0xFF08] = [] \<and>
   str_format_2_gui tbl [0xFF09, 0xFF08] = None"
proof -
  have "str_format_2_gui tbl [0xFF09, 0xFF08] = None"
    using strip_brackets_gui_diverges[of "0xFF08" "[0xFF09, 0xFF08]" "0xFF09"]
    by (simp add: str_format_2_gui_def)
  moreover have "str_format_2 tbl [0xFF09, 0xFF08] = []"
    by (simp add: str_format_2_def strip_brackets.simps[of _ _ "[0xFF09, 0xFF08]"]
        re_sub_symbols_def re_keep_def re_word_def py_isalnum_def py_remove_def)
  ultimately show ?thesis
    by (simp add: str_format_1_idem str_format_2_idem)
qed

section \<open>Prices of value zero\<close>

lemma strip_brackets_gui_absent: "l \<notin> set s \<Longrightarrow> strip_brackets_gui l r s = Some s"
  by (simp add: strip_brackets_gui.simps[of l r s])

lemma str_format_2_gui_no_open:
  "0x28 \<notin> set s \<Longrightarrow> 0xFF08 \<notin> set s \<Longrightarrow> str_format_2_gui tbl s = Some (str_format_2 tbl s)"
  by (simp add: str_format_2_gui_def str_format_2_def strip_brackets_gui_absent strip_brackets_absent)

lemma fadd_0_0: "fadd 0 0 = 0" by (simp add: fadd_def fl_def)
lemma fadd_0_5: "fadd 0 5 = 5" by code_simp
lemma fadd_0_7: "fadd 0 7 = 7" by code_simp
lemma py_round2_0: "py_round2 0 = 0" by (simp add: py_round2_def fl_def round_half_even_def)
lemma py_round2_5: "py_round2 5 = 5" by code_simp
lemma py_round2_7: "py_round2 7 = 7" by code_simp

lemmas eval_defs =
  calculate_student_payments_def calculate_student_payments_gui_def add_book_def add_book_gui_def
  empty_maps_def match_price_def student_step_gui_def payments_of_def py_or_def truthy_def Let_def
  str_format_2_gui_no_open str_format_2_def strip_brackets_absent
  py_strip_def py_isspace_def str_format_1_def py_remove_def
  re_sub_symbols_def re_keep_def re_word_def py_isalnum_def ascii_alnum_def
  fadd_0_0 fadd_0_5 fadd_0_7 py_round2_0 py_round2_5 py_round2_7

text \<open>
  Claim C1. A price of value zero is a present price: a purchase whose trimmed title is
  a key of the raw-title map gets that map's price, also when the price is 0, and is not
  passed on to a lower tier. The books are "A B" at 0 and "AB" at 5, the one purchase
  is "A B" by the student "s". textbook_fee_reporter.py tests the key with \<open>in\<close> and
  charges 0. TextbookPurchaseFeeCalculator.py chains the three \<open>get\<close> results with
  \<open>or\<close>: the raw result \<open>0.0\<close> is false, the chain goes on to the Tier-1 map, where the
  key "AB" holds the price of the other book, and the student is charged 5.
\<close>

theorem zero_price_raw_match_passed_on:
  "calculate_student_payments_gui tbl
     [\<lparr>book_serial = 1, book_title = [0x41, 0x20, 0x42], book_price = 0\<rparr>,
      \<lparr>book_serial = 2, book_title = [0x41, 0x42], book_price = 5\<rparr>]
     [\<lparr>stu_name = [0x73], stu_title = [0x41, 0x20, 0x42]\<rparr>] = Some (Inr ([([0x73], 5)], False)) \<and>
   calculate_student_payments tbl
     [\<lparr>book_serial = 1, book_title = [0x41, 0x20, 0x42], book_price = 0\<rparr>,
      \<lparr>book_serial = 2, book_title = [0x41, 0x42], book_price = 5\<rparr>]
     [\<lparr>stu_name = [0x73], stu_title = [0x41, 0x20, 0x42]\<rparr>] = Inr [([0x73], 0)]"
  by (simp add: eval_defs)

text \<open>
  Claim C3. The three lookups are tried in the order raw title, Tier 1, Tier 2, and the
  price of the first lookup that succeeds is the one added. The books are "A B" at 0
  and "A-B" at 7, the purchase is "AB": the raw map has no key "AB", the Tier-1 map has
  the key "AB" with the price 0 of the first book, the Tier-2 map has the key "AB" with
  the price 7 of the second. textbook_fee_reporter.py adds the Tier-1 price 0.
  TextbookPurchaseFeeCalculator.py takes the Tier-1 result \<open>0.0\<close> for false, adds the
  Tier-2 price 7 and sets the flag.
\<close>

theorem zero_price_tier1_match_skipped:
  "calculate_student_payments_gui tbl
     [\<lparr>book_serial = 1, book_title = [0x41, 0x20, 0x42], book_price = 0\<rparr>,
      \<lparr>book_serial = 2, book_title = [0x41, 0x2D, 0x42], book_price = 7\<rparr>]
     [\<lparr>stu_name = [0x73], stu_title = [0x41, 0x42]\<rparr>] = Some (Inr ([([0x73], 7)], True)) \<and>
   calculate_student_payments tbl
     [\<lparr>book_serial = 1, book_title = [0x41, 0x20, 0x42], book_price = 0\<rparr>,
      \<lparr>book_serial = 2, book_title = [0x41, 0x2D, 0x42], book_price = 7\<rparr>]
     [\<lparr>stu_name = [0x73], stu_title = [0x41, 0x42]\<rparr>] = Inr [([0x73], 0)]"
  by (simp add: eval_defs)

text \<open>
  Claim C4. The batch flag is true exactly when some purchase resolved at Tier 2 only:
  its Tier-2 lookup succeeds, its raw and Tier-1 lookups fail. The one book is "A!" at
  0, the one purchase is "A". In the maps built from the book the raw and the Tier-1
  map have no key "A", the Tier-2 map has the key "A" with the price 0: the purchase
  resolves at Tier 2 only. TextbookPurchaseFeeCalculator.py adds the price 0 and tests
  the flag condition on the truth value of the Tier-2 result, which is false for
  \<open>0.0\<close>: the flag stays false.
\<close>

theorem zero_price_tier2_only_not_flagged:
  "(let pm = build_price_maps tbl empty_maps
               [\<lparr>book_serial = 1, book_title = [0x41, 0x21], book_price = 0\<rparr>]
    in raw_name pm (py_strip [0x41]) = None \<and>
       fmt1_name pm (str_format_1 (py_strip [0x41])) = None \<and>
       fmt2_name pm (str_format_2 tbl (py_strip [0x41])) = Some 0) \<and>
   calculate_student_payments_gui tbl
     [\<lparr>book_serial = 1, book_title = [0x41, 0x21], book_price = 0\<rparr>]
     [\<lparr>stu_name = [0x73], stu_title = [0x41]\<rparr>] = Some (Inr ([([0x73], 0)], False))"
  by (simp add: eval_defs)

text \<open>
  Claim C9. The two versions of \<open>calculate_student_payments\<close> return the same rows
  whenever both succeed. The books are "A" at 0 and "A!" at 5, the purchase is "A". Both
  versions succeed; textbook_fee_reporter.py finds the raw key "A" and returns the fee
  0, TextbookPurchaseFeeCalculator.py skips the false results \<open>0.0\<close> of the raw and the
  Tier-1 map and returns the fee 5, the Tier-2 price of the other book.
\<close>

theorem implementations_differ_on_zero_price:
  "calculate_student_payments tbl
     [\<lparr>book_serial = 1, book_title = [0x41], book_price = 0\<rparr>,
      \<lparr>book_serial = 2, book_title = [0x41, 0x21], book_price = 5\<rparr>]
     [\<lparr>stu_name = [0x73], stu_title = [0x41]\<rparr>] = Inr [([0x73], 0)] \<and>
   calculate_student_payments_gui tbl
     [\<lparr>book_serial = 1, book_title = [0x41], book_price = 0\<rparr>,
      \<lparr>book_serial = 2, book_title = [0x41, 0x21], book_price = 5\<rparr>]
     [\<lparr>stu_name = [0x73], stu_title = [0x41]\<rparr>] = Some (Inr ([([0x73], 5)], True))"
  by (simp add: eval_defs)

section \<open>The two versions of calculate_student_payments as functions of the batch\<close>

lemma str_format_2_gui_value:
  "str_format_2_gui tbl s \<noteq> None \<Longrightarrow> str_format_2_gui tbl s = Some (str_format_2 tbl s)"
  using str_format_2_gui_agrees by fastforce

lemma add_book_gui_returns:
  "str_format_2_gui tbl (py_strip (book_title b)) \<noteq> None \<Longrightarrow>
   add_book_gui tbl pm b = Some (add_book tbl pm b)"
  by (simp add: add_book_gui_def add_book_def Let_def str_format_2_gui_value)

lemma build_price_maps_gui_returns:
  "\<forall>b\<in>set books. str_format_2_gui tbl (py_strip (book_title b)) \<noteq> None \<Longrightarrow>
   build_price_maps_gui tbl pm books = Some (build_price_maps tbl pm books)"
  by (induction books arbitrary: pm) (simp_all add: add_book_gui_returns)

lemma gui_greedy_priced: "gui_greedy tbl pm stu \<Longrightarrow> gui_price tbl pm stu \<noteq> None"
  by (auto simp: gui_greedy_def gui_price_def py_or_def truthy_def Let_def split: option.splits)

lemma student_step_gui_returns:
  assumes "str_format_2_gui tbl (py_strip (stu_title stu)) \<noteq> None"
  shows "student_step_gui tbl pm (t, u, f) stu =
         Some (case gui_price tbl pm stu of
                 Some p \<Rightarrow> (totals_add t (stu_name stu) p, u, f \<or> gui_greedy tbl pm stu)
               | None \<Rightarrow> (t, u @ [unmatched_line_gui stu], f))"
  using assms
  by (auto simp add: student_step_gui_def str_format_2_gui_value gui_price_def gui_greedy_def Let_def
      split: option.splits)

lemma student_loop_gui_returns:
  "\<forall>stu\<in>set recs. str_format_2_gui tbl (py_strip (stu_title stu)) \<noteq> None \<Longrightarrow>
   student_loop_gui tbl pm (t, u, f) recs =
   Some (add_all t (priced (gui_price tbl pm) recs),
         u @ map unmatched_line_gui (filter (\<lambda>stu. gui_price tbl pm stu = None) recs),
         f \<or> list_ex (gui_greedy tbl pm) recs)"
proof (induction recs arbitrary: t u f)
  case Nil
  then show ?case by (simp add: add_all_def priced_def)
next
  case (Cons stu recs)
  show ?case
  proof (cases "gui_price tbl pm stu")
    case None
    then have "\<not> gui_greedy tbl pm stu" using gui_greedy_priced by blast
    then show ?thesis using Cons None
      by (simp add: student_step_gui_returns add_all_def priced_def)
  next
    case (Some p)
    then show ?thesis using Cons
      by (auto simp add: student_step_gui_returns add_all_def priced_def)
  qed
qed

lemma student_loop_eq:
  "student_loop tbl pm t u recs =
   (add_all t (priced (match_price tbl pm) recs),
    u @ map unmatched_line (filter (\<lambda>stu. match_price tbl pm stu = None) recs))"
  by (induction recs arbitrary: t u) (auto simp: add_all_def priced_def split: option.splits)

lemma match_price_None: "match_price tbl pm stu = None \<longleftrightarrow> no_tier tbl pm stu"
  by (auto simp: match_price_def no_tier_def Let_def domIff)

lemma no_tier_gui_price: "no_tier tbl pm stu \<Longrightarrow> gui_price tbl pm stu = None"
  by (simp add: no_tier_def gui_price_def py_or_def truthy_def Let_def)

lemma calculate_student_payments_eq:
  "calculate_student_payments tbl books recs =
   (let pm = build_price_maps tbl empty_maps books;
        unmatched = filter (no_tier tbl pm) recs
    in if unmatched \<noteq> [] then Inl (PaymentsFailed (UnmatchedPurchases (map unmatched_line unmatched)))
       else Inr (payments_of (add_all [] (priced (match_price tbl pm) recs))))"
  by (simp add: calculate_student_payments_def student_loop_eq Let_def match_price_None)

lemma calculate_student_payments_gui_eq:
  assumes "\<forall>b\<in>set books. str_format_2_gui tbl (py_strip (book_title b)) \<noteq> None"
    and "\<forall>stu\<in>set recs. str_format_2_gui tbl (py_strip (stu_title stu)) \<noteq> None"
  shows "calculate_student_payments_gui tbl books recs =
   Some (let pm = build_price_maps tbl empty_maps books;
             unmatched = filter (\<lambda>stu. gui_price tbl pm stu = None) recs
         in if unmatched \<noteq> [] then Inl (UnmatchedPurchases (map unmatched_line_gui unmatched))
            else Inr (payments_of (add_all [] (priced (gui_price tbl pm) recs)),
                      list_ex (gui_greedy tbl pm) recs))"
  using assms
  by (simp add: calculate_student_payments_gui_def build_price_maps_gui_returns
      student_loop_gui_returns Let_def)



text \<open>
  The error of a batch in which some purchase resolves at no tier.
  textbook_fee_reporter.py, on every batch: the result is one error with a line, the
  student name and the trimmed title, for every purchase that resolves at no tier, in
  the order of the batch, re-raised under the prefix of the function; no rows are
  returned. TextbookPurchaseFeeCalculator.py, on a batch on whose titles its
  \<open>str_format_2\<close> returns: the result is one error with the lines of the purchases for
  which the \<open>or\<close> chain gives \<open>None\<close>, among them every purchase that resolves at no tier.
\<close>

theorem unmatched_purchases_aggregated:
  assumes "\<exists>stu\<in>set recs. no_tier tbl (build_price_maps tbl empty_maps books) stu"
  shows "calculate_student_payments tbl books recs =
           Inl (PaymentsFailed (UnmatchedPurchases
             (map unmatched_line
                (filter (no_tier tbl (build_price_maps tbl empty_maps books)) recs)))) \<and>
         ((\<forall>b\<in>set books. str_format_2_gui tbl (py_strip (book_title b)) \<noteq> None) \<and>
          (\<forall>stu\<in>set recs. str_format_2_gui tbl (py_strip (stu_title stu)) \<noteq> None) \<longrightarrow>
          calculate_student_payments_gui tbl books recs =
            Some (Inl (UnmatchedPurchases
              (map unmatched_line_gui
                 (filter (\<lambda>stu. gui_price tbl (build_price_maps tbl empty_maps books) stu = None)
                    recs)))) \<and>
          (\<forall>stu\<in>set recs. no_tier tbl (build_price_maps tbl empty_maps books) stu \<longrightarrow>
             unmatched_line_gui stu \<in> set
              (map unmatched_line_gui
                 (filter (\<lambda>stu. gui_price tbl (build_price_maps tbl empty_maps books) stu = None)
                    recs))))"
proof -
  define pm where "pm = build_price_maps tbl empty_maps books"
  obtain stu where stu: "stu \<in> set recs" "no_tier tbl pm stu"
    using assms pm_def by blast
  then have ne: "filter (no_tier tbl pm) recs \<noteq> []"
    by (auto simp: filter_empty_conv)
  have ne_gui: "filter (\<lambda>stu. gui_price tbl pm stu = None) recs \<noteq> []"
    using stu no_tier_gui_price by (auto simp: filter_empty_conv)
  have rep: "calculate_student_payments tbl books recs =
        Inl (PaymentsFailed (UnmatchedPurchases (map unmatched_line (filter (no_tier tbl pm) recs))))"
    using ne by (simp add: calculate_student_payments_eq Let_def pm_def)
  have gui: "calculate_student_payments_gui tbl books recs =
            Some (Inl (UnmatchedPurchases
              (map unmatched_line_gui (filter (\<lambda>stu. gui_price tbl pm stu = None) recs))))"
    if "\<forall>b\<in>set books. str_format_2_gui tbl (py_strip (book_title b)) \<noteq> None"
      "\<forall>stu\<in>set recs. str_format_2_gui tbl (py_strip (stu_title stu)) \<noteq> None"
    using calculate_student_payments_gui_eq[OF that] ne_gui by (simp add: Let_def pm_def)
  have inc: "\<forall>stu\<in>set recs. no_tier tbl pm stu \<longrightarrow>
             unmatched_line_gui stu \<in> set
              (map unmatched_line_gui (filter (\<lambda>stu. gui_price tbl pm stu = None) recs))"
    using no_tier_gui_price by auto
  show ?thesis using rep gui inc unfolding pm_def by blast
qed

theorem unmatched_purchases_aggregated_witness:
  "no_tier (\<lambda>c. False)
     (build_price_maps (\<lambda>c. False) empty_maps
        [\<lparr>book_serial = 1, book_title = [0x41], book_price = 5\<rparr>])
     \<lparr>stu_name = [0x73], stu_title = [0x42]\<rparr> \<and>
   str_format_2_gui (\<lambda>c. False) (py_strip [0x41]) \<noteq> None \<and>
   str_format_2_gui (\<lambda>c. False) (py_strip [0x42]) \<noteq> None \<and>
   calculate_student_payments (\<lambda>c. False)
     [\<lparr>book_serial = 1, book_title = [0x41], book_price = 5\<rparr>]
     [\<lparr>stu_name = [0x73], stu_title = [0x42]\<rparr>, \<lparr>stu_name = [0x74], stu_title = [0x41]\<rparr>] =
     Inl (PaymentsFailed (UnmatchedPurchases
       [[0x5B66, 0x751F, 0x5B, 0x73, 0x5D, 0x20, 0x6559, 0x6750, 0x5B, 0x42, 0x5D]])) \<and>
   calculate_student_payments_gui (\<lambda>c. False)
     [\<lparr>book_serial = 1, book_title = [0x41], book_price = 5\<rparr>]
     [\<lparr>stu_name = [0x73], stu_title = [0x42]\<rparr>, \<lparr>stu_name = [0x74], stu_title = [0x41]\<rparr>] =
     Some (Inl (UnmatchedPurchases [[0x73, 0x20, 0x2D, 0x20, 0x42]]))"
proof -
  let ?tbl = "\<lambda>c::nat. False"
  let ?B = "[\<lparr>book_serial = 1, book_title = [0x41], book_price = 5\<rparr>]"
  let ?r1 = "\<lparr>stu_name = [0x73], stu_title = [0x42]\<rparr>"
  let ?r2 = "\<lparr>stu_name = [0x74], stu_title = [0x41]\<rparr>"
  define pm where "pm = build_price_maps ?tbl empty_maps ?B"
  have n1: "no_tier ?tbl pm ?r1" and n2: "\<not> no_tier ?tbl pm ?r2"
    unfolding pm_def by (simp_all add: no_tier_def eval_defs)
  have g1: "gui_price ?tbl pm ?r1 = None" and g2: "gui_price ?tbl pm ?r2 \<noteq> None"
    unfolding pm_def by (simp_all add: gui_price_def eval_defs)
  have s1: "str_format_2_gui ?tbl (py_strip [0x41]) \<noteq> None"
    and s2: "str_format_2_gui ?tbl (py_strip [0x42]) \<noteq> None"
    by (simp_all add: eval_defs)
  have h: "\<exists>stu\<in>set [?r1, ?r2]. no_tier ?tbl (build_price_maps ?tbl empty_maps ?B) stu"
    using n1 unfolding pm_def by simp
  have hb: "\<forall>b\<in>set ?B. str_format_2_gui ?tbl (py_strip (book_title b)) \<noteq> None"
    using s1 by simp
  have hr: "\<forall>stu\<in>set [?r1, ?r2]. str_format_2_gui ?tbl (py_strip (stu_title stu)) \<noteq> None"
    using s1 s2 by simp
  note t = unmatched_purchases_aggregated[OF h, folded pm_def]
  have rep: "calculate_student_payments ?tbl ?B [?r1, ?r2] =
             Inl (PaymentsFailed (UnmatchedPurchases
               [[0x5B66, 0x751F, 0x5B, 0x73, 0x5D, 0x20, 0x6559, 0x6750, 0x5B, 0x42, 0x5D]]))"
    using t n1 n2 by (simp add: unmatched_line_def py_strip_def py_isspace_def)
  have gui: "calculate_student_payments_gui ?tbl ?B [?r1, ?r2] =
             Some (Inl (UnmatchedPurchases [[0x73, 0x20, 0x2D, 0x20, 0x42]]))"
    using t hb hr g1 g2 by (simp add: unmatched_line_gui_def py_strip_def py_isspace_def)
  show ?thesis using n1 s1 s2 rep gui unfolding pm_def by blast
qed

lemma str_format_2_gui_close_open: "str_format_2_gui tbl [0x29, 0x28] = None"
  using strip_brackets_gui_diverges[of "0x28" "[0x29, 0x28]" "0x29"]
  by (simp add: str_format_2_gui_def strip_brackets_gui.simps[of "0xFF08"])

text \<open>
  Claim C2. If some purchase of the batch resolves at no tier, the calculation fails
  with one error that lists every unmatched purchase. The one book is "A" at 5, the one
  purchase is the title ")(" by the student "s"; no key of the purchase is in its map.
  textbook_fee_reporter.py fails with the error that lists the purchase.
  TextbookPurchaseFeeCalculator.py calls its \<open>str_format_2\<close> on the title, which does not
  return: the calculation raises no error and returns nothing.
\<close>

theorem unmatched_purchase_never_reported:
  "no_tier tbl
     (build_price_maps tbl empty_maps [\<lparr>book_serial = 1, book_title = [0x41], book_price = 5\<rparr>])
     \<lparr>stu_name = [0x73], stu_title = [0x29, 0x28]\<rparr> \<and>
   calculate_student_payments tbl
     [\<lparr>book_serial = 1, book_title = [0x41], book_price = 5\<rparr>]
     [\<lparr>stu_name = [0x73], stu_title = [0x29, 0x28]\<rparr>] =
     Inl (PaymentsFailed (UnmatchedPurchases
       [[0x5B66, 0x751F, 0x5B, 0x73, 0x5D, 0x20, 0x6559, 0x6750, 0x5B, 0x29, 0x28, 0x5D]])) \<and>
   calculate_student_payments_gui tbl
     [\<lparr>book_serial = 1, book_title = [0x41], book_price = 5\<rparr>]
     [\<lparr>stu_name = [0x73], stu_title = [0x29, 0x28]\<rparr>] = None"
proof -
  let ?B = "[\<lparr>book_serial = 1, book_title = [0x41], book_price = 5\<rparr>]"
  let ?r = "\<lparr>stu_name = [0x73], stu_title = [0x29, 0x28]\<rparr>"
  have f2: "str_format_2 tbl [0x29, 0x28] = []"
    by (simp add: str_format_2_def strip_brackets.simps[of _ _ "[0x29, 0x28]"]
        re_sub_symbols_def re_keep_def re_word_def py_isalnum_def ascii_alnum_def py_remove_def)
  have sA: "str_format_2 tbl [0x41] = [0x41]"
    by (simp add: eval_defs)
  have n: "no_tier tbl (build_price_maps tbl empty_maps ?B) ?r"
    by (simp add: no_tier_def add_book_def empty_maps_def Let_def f2 sA
        py_strip_def py_isspace_def str_format_1_def py_remove_def)
  have rep: "calculate_student_payments tbl ?B [?r] =
     Inl (PaymentsFailed (UnmatchedPurchases
       [[0x5B66, 0x751F, 0x5B, 0x73, 0x5D, 0x20, 0x6559, 0x6750, 0x5B, 0x29, 0x28, 0x5D]]))"
    using n by (simp add: calculate_student_payments_eq Let_def unmatched_line_def
        py_strip_def py_isspace_def)
  have "student_step_gui tbl pm st ?r = None" for pm st
    by (cases st) (simp add: student_step_gui_def str_format_2_gui_close_open Let_def
        py_strip_def py_isspace_def split: prod.splits)
  then have gui: "calculate_student_payments_gui tbl ?B [?r] = None"
    by (simp add: calculate_student_payments_gui_def split: bind_splits)
  show ?thesis using n rep gui by blast
qed

section \<open>Totals and rounding\<close>

lemma totals_add_keys: "fst ` set (totals_add t n p) = insert n (fst ` set t)"
  by (induction t n p rule: totals_add.induct) auto

lemma totals_add_distinct: "distinct (map fst t) \<Longrightarrow> distinct (map fst (totals_add t n p))"
proof (induction t n p rule: totals_add.induct)
  case (1 n p)
  then show ?case by simp
next
  case (2 k v ts n p)
  then show ?case using totals_add_keys[of ts n p] by auto
qed

lemma totals_add_map_of:
  "map_of (totals_add t n p) m =
   (if m = n then Some (fadd (case map_of t n of None \<Rightarrow> 0 | Some v \<Rightarrow> v) p) else map_of t m)"
  by (induction t n p rule: totals_add.induct) auto

lemma add_all_Cons: "add_all t ((n, p) # nps) = add_all (totals_add t n p) nps"
  by (simp add: add_all_def)

lemma add_all_keys: "fst ` set (add_all t nps) = fst ` set t \<union> fst ` set nps"
proof (induction nps arbitrary: t)
  case Nil
  then show ?case by (simp add: add_all_def)
next
  case (Cons a nps)
  obtain n p where a: "a = (n, p)" by (cases a)
  show ?case unfolding a add_all_Cons Cons totals_add_keys by auto
qed

lemma add_all_distinct: "distinct (map fst t) \<Longrightarrow> distinct (map fst (add_all t nps))"
proof (induction nps arbitrary: t)
  case Nil
  then show ?case by (simp add: add_all_def)
next
  case (Cons a nps)
  obtain n p where a: "a = (n, p)" by (cases a)
  show ?case unfolding a add_all_Cons using Cons totals_add_distinct by blast
qed

lemma add_all_map_of:
  "map_of (add_all t nps) m =
   (if prices_of m nps = [] then map_of t m
    else Some (foldl fadd (case map_of t m of None \<Rightarrow> 0 | Some v \<Rightarrow> v) (prices_of m nps)))"
proof (induction nps arbitrary: t)
  case Nil
  then show ?case by (simp add: add_all_def prices_of_def)
next
  case (Cons a nps)
  obtain n p where a: "a = (n, p)" by (cases a)
  show ?case unfolding a add_all_Cons Cons
    by (simp add: totals_add_map_of prices_of_def)
qed

lemma prices_of_empty: "prices_of m nps = [] \<longleftrightarrow> m \<notin> fst ` set nps"
  by (auto simp: prices_of_def filter_empty_conv)

lemma payments_of_fst: "map fst (payments_of t) = map fst t"
  by (simp add: payments_of_def case_prod_beta)

lemma payments_of_map_of: "map_of (payments_of t) n = map_option py_round2 (map_of t n)"
  by (induction t) (auto simp: payments_of_def)

lemma priced_keys:
  "\<forall>stu\<in>set recs. price stu \<noteq> None \<Longrightarrow> fst ` set (priced price recs) = stu_name ` set recs"
  by (induction recs) (auto simp: priced_def)

lemma round_half_even_nearest:
  "\<bar>x - of_int (round_half_even x)\<bar> \<le> 1 / 2 \<and>
   (\<bar>x - of_int (round_half_even x)\<bar> = 1 / 2 \<longrightarrow> even (round_half_even x))"
proof -
  define f where "f = \<lfloor>x\<rfloor>"
  define d where "d = x - of_int f"
  have d: "0 \<le> d" "d < 1" unfolding d_def f_def by linarith+
  have r: "round_half_even x =
           (if d < 1 / 2 then f else if 1 / 2 < d then f + 1 else if even f then f else f + 1)"
    by (simp add: round_half_even_def Let_def f_def d_def)
  have x0: "x - of_int f = d" and x1: "x - of_int (f + 1) = d - 1"
    by (simp_all add: d_def)
  consider "d < 1 / 2" | "1 / 2 < d" | "d = 1 / 2" "even f" | "d = 1 / 2" "odd f"
    by fastforce
  then show ?thesis
  proof cases
    case 1
    then have "round_half_even x = f" by (simp add: r)
    then show ?thesis using d 1 x0 by simp
  next
    case 2
    then have "round_half_even x = f + 1" by (simp add: r)
    then show ?thesis using d 2 x1 by simp
  next
    case 3
    then have "round_half_even x = f" by (simp add: r)
    then show ?thesis using 3 x0 by simp
  next
    case 4
    then have "round_half_even x = f + 1" by (simp add: r)
    then show ?thesis using 4 x1 by simp
  qed
qed

lemma rows_from_map_of:
  assumes "distinct (map fst ps)" "\<forall>n\<in>fst ` set ps. map_of ps n = Some (f n)"
  shows "map snd ps = map f (map fst ps)"
  using assms
proof (induction ps)
  case Nil
  then show ?case by simp
next
  case (Cons a ps)
  obtain n v where a: "a = (n, v)" by (cases a)
  have "\<forall>m\<in>fst ` set ps. map_of ps m = Some (f m)"
  proof
    fix m assume m: "m \<in> fst ` set ps"
    then have "m \<noteq> n" using Cons.prems(1) a by auto
    then show "map_of ps m = Some (f m)" using Cons.prems(2) m a by auto
  qed
  then have "map snd ps = map f (map fst ps)" using Cons by simp
  moreover have "v = f n" using Cons.prems(2) a by simp
  ultimately show ?case using a by simp
qed

lemma fl_19995: "fl (19995 / 1000) = 5628092159329567 / 281474976710656" by code_simp
lemma fadd_0_19995:
  "fadd 0 (5628092159329567 / 281474976710656) = 5628092159329567 / 281474976710656" by code_simp
lemma fadd_19995_19995:
  "fadd (5628092159329567 / 281474976710656) (5628092159329567 / 281474976710656) =
   5628092159329567 / 140737488355328" by code_simp
lemma py_round2_3999:
  "py_round2 (5628092159329567 / 140737488355328) = 5628092159329567 / 140737488355328"
  by code_simp
lemma fl_3999: "fl (3999 / 100) = 5628092159329567 / 140737488355328" by code_simp
lemma fadd_0_eighth: "fadd 0 (1 / 8) = 1 / 8" by code_simp
lemma py_round2_eighth: "py_round2 (1 / 8) = 1080863910568919 / 9007199254740992" by code_simp
lemma round_half_up2_eighth: "round_half_up2 (1 / 8) = 1170935903116329 / 9007199254740992"
  by code_simp
lemma fl_012: "fl (12 / 100) = 1080863910568919 / 9007199254740992" by code_simp
lemma fl_013: "fl (13 / 100) = 1170935903116329 / 9007199254740992" by code_simp


text \<open>
  Claim C8, as stated: each fee is the sum of the student's prices rounded to two
  decimals half-up. One book "A" at 0.125, one purchase of it: the sum is the float
  0.125, exactly one eighth, a tie between 0.12 and 0.13. \<open>round(0.125, 2)\<close> goes to
  the even digit and the fee is the float 0.12; half-up gives the float 0.13.
\<close>

theorem half_up_counterexample:
  "calculate_student_payments_gui (\<lambda>c. False)
     [\<lparr>book_serial = 1, book_title = [0x41], book_price = 1 / 8\<rparr>]
     [\<lparr>stu_name = [0x73], stu_title = [0x41]\<rparr>] =
     Some (Inr ([([0x73], py_round2 (1 / 8))], False)) \<and>
   py_round2 (1 / 8) = fl (12 / 100) \<and>
   round_half_up2 (foldl fadd 0 [1 / 8]) = fl (13 / 100) \<and>
   fl (12 / 100) < fl (13 / 100)"
proof -
  have c1: "calculate_student_payments_gui (\<lambda>c. False)
     [\<lparr>book_serial = 1, book_title = [0x41], book_price = 1 / 8\<rparr>]
     [\<lparr>stu_name = [0x73], stu_title = [0x41]\<rparr>] =
     Some (Inr ([([0x73], py_round2 (1 / 8))], False))"
    by (simp add: eval_defs fadd_0_eighth)
  have c2: "py_round2 (1 / 8) = fl (12 / 100)" by code_simp
  have c3: "round_half_up2 (foldl fadd 0 [1 / 8]) = fl (13 / 100)" by code_simp
  have c4: "fl (12 / 100) < fl (13 / 100)" by code_simp
  show ?thesis using c1 c2 c3 c4 by blast
qed


text \<open>
  Claim C8, amended. On a batch on whose titles \<open>str_format_2\<close> returns and in which
  every purchase gets a price, \<open>calculate_student_payments\<close> of
  TextbookPurchaseFeeCalculator.py returns one row for each student name of the batch,
  and the fee of a student is \<open>round(total, 2)\<close> of the float sum, from \<open>0.0\<close> and in
  the order of the batch, of the prices of that student's purchases: rounding is per
  student, not per purchase. \<open>round(x, 2)\<close> takes the integer nearest to the exact
  value of \<open>100 x\<close>, the even one on a tie, and returns the float nearest to that
  number of hundredths. The grand total is the \<open>sum\<close> of the fees of the rows.
\<close>

theorem fees_rounded_half_even_per_student:
  assumes "\<forall>b\<in>set books. str_format_2_gui tbl (py_strip (book_title b)) \<noteq> None"
    and "\<forall>stu\<in>set recs. str_format_2_gui tbl (py_strip (stu_title stu)) \<noteq> None"
    and "\<forall>stu\<in>set recs. gui_price tbl (build_price_maps tbl empty_maps books) stu \<noteq> None"
  shows "\<exists>payments flag.
           calculate_student_payments_gui tbl books recs = Some (Inr (payments, flag)) \<and>
           distinct (map fst payments) \<and>
           fst ` set payments = stu_name ` set recs \<and>
           (\<forall>n\<in>stu_name ` set recs.
              map_of payments n =
              Some (py_round2 (foldl fadd 0
                (prices_of n (priced (gui_price tbl (build_price_maps tbl empty_maps books)) recs))))) \<and>
           grand_total fsum payments =
           fsum (map (\<lambda>n. py_round2 (foldl fadd 0
                  (prices_of n (priced (gui_price tbl (build_price_maps tbl empty_maps books)) recs))))
                 (map fst payments)) \<and>
           (\<forall>x. \<bar>x * 100 - of_int (round_half_even (x * 100))\<bar> \<le> 1 / 2 \<and>
                (\<bar>x * 100 - of_int (round_half_even (x * 100))\<bar> = 1 / 2 \<longrightarrow>
                 even (round_half_even (x * 100))) \<and>
                py_round2 x = fl (of_int (round_half_even (x * 100)) / 100))"
proof -
  define pm where "pm = build_price_maps tbl empty_maps books"
  define nps where "nps = priced (gui_price tbl pm) recs"
  define payments where "payments = payments_of (add_all [] nps)"
  have none: "filter (\<lambda>stu. gui_price tbl pm stu = None) recs = []"
    using assms(3) by (simp add: pm_def filter_empty_conv)
  have res: "calculate_student_payments_gui tbl books recs =
             Some (Inr (payments, list_ex (gui_greedy tbl pm) recs))"
    using calculate_student_payments_gui_eq[OF assms(1,2)] none
    by (simp add: Let_def pm_def payments_def nps_def)
  have keys: "fst ` set nps = stu_name ` set recs"
    unfolding nps_def using assms(3) by (intro priced_keys) (simp add: pm_def)
  have d: "distinct (map fst payments)"
    by (simp add: payments_def payments_of_fst add_all_distinct)
  have k: "fst ` set payments = stu_name ` set recs"
    using add_all_keys[of "[]" nps] keys payments_of_fst[of "add_all [] nps"]
    by (metis payments_def empty_set image_empty list.set_map sup_bot_left)
  have m: "\<forall>n\<in>stu_name ` set recs.
             map_of payments n = Some (py_round2 (foldl fadd 0 (prices_of n nps)))"
  proof
    fix n assume "n \<in> stu_name ` set recs"
    then have "prices_of n nps \<noteq> []" using keys by (simp add: prices_of_empty)
    then show "map_of payments n = Some (py_round2 (foldl fadd 0 (prices_of n nps)))"
      by (simp add: payments_def payments_of_map_of add_all_map_of)
  qed
  have g: "grand_total fsum payments =
           fsum (map (\<lambda>n. py_round2 (foldl fadd 0 (prices_of n nps))) (map fst payments))"
  proof -
    have "\<forall>n\<in>fst ` set payments.
            map_of payments n = Some (py_round2 (foldl fadd 0 (prices_of n nps)))"
      using m k by simp
    from rows_from_map_of[OF d this]
    have e: "map snd payments =
             map (\<lambda>n. py_round2 (foldl fadd 0 (prices_of n nps))) (map fst payments)" .
    show ?thesis unfolding grand_total_def e ..
  qed
  have r: "\<forall>x. \<bar>x * 100 - of_int (round_half_even (x * 100))\<bar> \<le> 1 / 2 \<and>
                (\<bar>x * 100 - of_int (round_half_even (x * 100))\<bar> = 1 / 2 \<longrightarrow>
                 even (round_half_even (x * 100))) \<and>
                py_round2 x = fl (of_int (round_half_even (x * 100)) / 100)"
    using round_half_even_nearest by (simp add: py_round2_def)
  show ?thesis
    using res d k m g r unfolding nps_def pm_def by blast
qed


text \<open>
  Two purchases at the float 19.995 by one student: the fee is the float 39.99.
\<close>

theorem fees_rounded_half_even_per_student_witness:
  "fl (19995 / 1000) = 5628092159329567 / 281474976710656 \<and>
   fl (3999 / 100) = 5628092159329567 / 140737488355328 \<and>
   str_format_2_gui (\<lambda>c. False) (py_strip [0x41]) \<noteq> None \<and>
   gui_price (\<lambda>c. False)
     (build_price_maps (\<lambda>c. False) empty_maps
        [\<lparr>book_serial = 1, book_title = [0x41],
          book_price = 5628092159329567 / 281474976710656\<rparr>])
     \<lparr>stu_name = [0x73], stu_title = [0x41]\<rparr> \<noteq> None \<and>
   (\<exists>payments flag.
      calculate_student_payments_gui (\<lambda>c. False)
        [\<lparr>book_serial = 1, book_title = [0x41],
          book_price = 5628092159329567 / 281474976710656\<rparr>]
        [\<lparr>stu_name = [0x73], stu_title = [0x41]\<rparr>, \<lparr>stu_name = [0x73], stu_title = [0x41]\<rparr>] =
      Some (Inr (payments, flag)) \<and>
      map_of payments [0x73] = Some (5628092159329567 / 140737488355328) \<and>
      grand_total (foldl fadd 0) payments = 5628092159329567 / 140737488355328)"
proof -
  let ?tbl = "\<lambda>c::nat. False"
  let ?B = "[\<lparr>book_serial = 1, book_title = [0x41],
              book_price = 5628092159329567 / 281474976710656\<rparr>]"
  let ?r = "\<lparr>stu_name = [0x73], stu_title = [0x41]\<rparr>"
  define pm where "pm = build_price_maps ?tbl empty_maps ?B"
  have f1: "fl (19995 / 1000) = 5628092159329567 / 281474976710656" by code_simp
  have f2: "fl (3999 / 100) = 5628092159329567 / 140737488355328" by code_simp
  have s: "str_format_2_gui ?tbl (py_strip [0x41]) \<noteq> None"
    by (simp add: eval_defs)
  have p: "gui_price ?tbl pm ?r = Some (5628092159329567 / 281474976710656)"
    unfolding pm_def by (simp add: gui_price_def eval_defs)
  have h1: "\<forall>b\<in>set ?B. str_format_2_gui ?tbl (py_strip (book_title b)) \<noteq> None"
    using s by simp
  have h2: "\<forall>stu\<in>set [?r, ?r]. str_format_2_gui ?tbl (py_strip (stu_title stu)) \<noteq> None"
    using s by simp
  have h3: "\<forall>stu\<in>set [?r, ?r]. gui_price ?tbl (build_price_maps ?tbl empty_maps ?B) stu \<noteq> None"
    using p unfolding pm_def by simp
  have ps: "prices_of [0x73] (priced (gui_price ?tbl pm) [?r, ?r]) =
            [5628092159329567 / 281474976710656, 5628092159329567 / 281474976710656]"
    by (simp add: prices_of_def priced_def p)
  have v: "py_round2 (foldl fadd 0
             [5628092159329567 / 281474976710656, 5628092159329567 / 281474976710656]) =
           5628092159329567 / 140737488355328"
    by (simp add: fadd_0_19995 fadd_19995_19995 py_round2_3999)
  from fees_rounded_half_even_per_student[OF h1 h2 h3, of "foldl fadd 0", folded pm_def]
  obtain payments flag where
    r: "calculate_student_payments_gui ?tbl ?B [?r, ?r] = Some (Inr (payments, flag))" and
    k: "fst ` set payments = stu_name ` set [?r, ?r]" and
    d: "distinct (map fst payments)" and
    m: "\<forall>n\<in>stu_name ` set [?r, ?r]. map_of payments n =
          Some (py_round2 (foldl fadd 0 (prices_of n (priced (gui_price ?tbl pm) [?r, ?r]))))" and
    g: "grand_total (foldl fadd 0) payments =
          foldl fadd 0 (map (\<lambda>n. py_round2 (foldl fadd 0
            (prices_of n (priced (gui_price ?tbl pm) [?r, ?r])))) (map fst payments))"
    by blast
  have m1: "map_of payments [0x73] = Some (5628092159329567 / 140737488355328)"
    using m ps by (simp add: fadd_0_19995 fadd_19995_19995 py_round2_3999)
  have ks: "set (map fst payments) = {[0x73]}" using k by simp
  have "map fst payments = [[0x73]]"
  proof (cases "map fst payments")
    case Nil
    then show ?thesis using ks by simp
  next
    case (Cons a as)
    then have "a = [0x73]" "set as \<subseteq> {[0x73]}" "a \<notin> set as" using ks d by auto
    then have "as = []" by (cases as) auto
    then show ?thesis using Cons \<open>a = [0x73]\<close> by simp
  qed
  then have "grand_total (foldl fadd 0) payments =
             fadd 0 (5628092159329567 / 140737488355328)"
    using g ps by (simp add: fadd_0_19995 fadd_19995_19995 py_round2_3999)
  moreover have "fadd 0 (5628092159329567 / 140737488355328) =
                 5628092159329567 / 140737488355328" by code_simp
  ultimately have g1: "grand_total (foldl fadd 0) payments =
                       5628092159329567 / 140737488355328" by simp
  have p': "gui_price ?tbl (build_price_maps ?tbl empty_maps ?B) ?r \<noteq> None"
    using p unfolding pm_def by simp
  show ?thesis using f1 f2 s p' r m1 g1 by blast
qed

section \<open>Book extraction\<close>















end
